theory Spec2Isabelle
  imports Complex_Main "HOL-Library.AList"
begin

section \<open>Numbers\<close>

text \<open>
  Amounts, prices and percentages are Python floats in \<^verbatim>\<open>models.py\<close>. They are
  modelled as exact rationals: every sum, product and difference is the exact one.
  The two places where the program leaves the finite numbers are written out:
  rounding to two decimals (\<open>round(x, 2)\<close>, \<open>.round(2)\<close>) and pandas' division,
  which yields \<open>inf\<close>, \<open>-inf\<close> or \<open>NaN\<close> on a zero divisor instead of raising.

  The program computes in binary floating point, where every operation is correct to a
  relative error of \<open>2\<^sup>-\<^sup>5\<^sup>3\<close>. An unrounded amount of the program therefore agrees with
  the exact one up to that error, and a rounded amount can differ from the exact
  rounding by one cent where the exact amount lies within that error of a tie. The
  statements about rounded amounts below are bounds with room for this, on amounts of
  at most \<open>10\<^sup>9\<close>; they do not say which way a tie goes.
\<close>

definition round_half_even :: "rat \<Rightarrow> int" where
  "round_half_even x =
     (let f = \<lfloor>x\<rfloor>; d = x - of_int f
      in if d < 1 / 2 then f
         else if 1 / 2 < d then f + 1
         else if even f then f else f + 1)"

definition round2 :: "rat \<Rightarrow> rat" where
  \<comment> \<open>\<open>round(x, 2)\<close>: the nearest multiple of 0.01, ties to the even one\<close>
  "round2 x = of_int (round_half_even (x * 100)) / 100"

datatype fval = Fin rat | PosInf | NegInf | NaN

definition fdiv :: "rat \<Rightarrow> rat \<Rightarrow> fval" where
  \<comment> \<open>pandas \<open>a / b\<close> on two finite numbers\<close>
  "fdiv a b =
     (if b \<noteq> 0 then Fin (a / b)
      else if 0 < a then PosInf
      else if a < 0 then NegInf
      else NaN)"

definition ftimes :: "fval \<Rightarrow> rat \<Rightarrow> fval" where
  \<comment> \<open>\<open>v * k\<close> for a finite \<open>k\<close>\<close>
  "ftimes v k =
     (case v of
        Fin a \<Rightarrow> Fin (a * k)
      | PosInf \<Rightarrow> (if 0 < k then PosInf else if k < 0 then NegInf else NaN)
      | NegInf \<Rightarrow> (if 0 < k then NegInf else if k < 0 then PosInf else NaN)
      | NaN \<Rightarrow> NaN)"

definition fround2 :: "fval \<Rightarrow> fval" where
  \<comment> \<open>\<open>.round(2)\<close> keeps non-finite values\<close>
  "fround2 v = (case v of Fin a \<Rightarrow> Fin (round2 a) | _ \<Rightarrow> v)"

definition fillna :: "rat \<Rightarrow> fval \<Rightarrow> fval" where
  "fillna z v = (case v of NaN \<Rightarrow> Fin z | _ \<Rightarrow> v)"

definition replace_inf :: "rat \<Rightarrow> fval \<Rightarrow> fval" where
  \<comment> \<open>\<open>.replace([float('inf'), float('-inf')], z)\<close>\<close>
  "replace_inf z v = (case v of PosInf \<Rightarrow> Fin z | NegInf \<Rightarrow> Fin z | _ \<Rightarrow> v)"

definition finite_part :: "fval \<Rightarrow> rat" where
  \<comment> \<open>the number held by a finite value; used only behind \<open>fillna\<close> and \<open>replace_inf\<close>\<close>
  "finite_part v = (case v of Fin a \<Rightarrow> a | _ \<Rightarrow> 0)"

section \<open>Dates and periods\<close>

text \<open>
  A timestamp is a day number (days since 1970-01-01); the program's dates carry no
  time of day. A pandas period is a frequency and an ordinal, and two periods are equal
  when both agree. \<open>to_period('M')\<close> is the calendar month of the day, numbered in
  months since January 1970. \<open>to_period('2W')\<close> has the frequency \<open>2W-SUN\<close> and
  the ordinal of the Monday-to-Sunday week of the day: the multiple 2 changes neither
  the bucket a date falls into nor the span the period prints.

  The aggregators turn their period column into strings, and the callers parse the
  strings back. A month \<open>2025-06\<close> parses to the month it names. A week
  \<open>2025-06-23/2025-06-29\<close> read by \<open>pd.Period\<close> is a period of frequency
  \<open>W-SUN\<close>, which equals no period of frequency \<open>2W-SUN\<close>; read by
  \<open>get_biweekly_capital\<close> (the start date, then \<open>to_period('2W')\<close>) it is the
  period that was printed.
\<close>

type_synonym timestamp = int

datatype freq = Month | Week | Two_Weeks

type_synonym period = "freq \<times> int"

definition month_ordinal :: "timestamp \<Rightarrow> int" where
  "month_ordinal d =
     (let z = d + 719468;
          era = z div 146097;
          doe = z mod 146097;
          yoe = (doe - doe div 1460 + doe div 36524 - doe div 146096) div 365;
          doy = doe - (365 * yoe + yoe div 4 - yoe div 100);
          mp = (5 * doy + 2) div 153;
          m = (if mp < 10 then mp + 3 else mp - 9);
          y = yoe + era * 400 + (if m \<le> 2 then 1 else 0)
      in (y - 1970) * 12 + (m - 1))"

definition to_period_M :: "timestamp \<Rightarrow> period" where
  "to_period_M d = (Month, month_ordinal d)"

definition to_period_2W :: "timestamp \<Rightarrow> period" where
  \<comment> \<open>day 0 is a Thursday, so day \<open>-3\<close> is a Monday\<close>
  "to_period_2W d = (Two_Weeks, (d + 3) div 7)"

definition parse_period :: "period \<Rightarrow> period" where
  \<comment> \<open>\<open>pd.Period(str(p))\<close>\<close>
  "parse_period p = (case fst p of Two_Weeks \<Rightarrow> (Week, snd p) | _ \<Rightarrow> p)"

definition period_le :: "period \<Rightarrow> period \<Rightarrow> bool" where
  \<comment> \<open>\<open>p <= q\<close> on two periods of one frequency\<close>
  "period_le p q = (snd p \<le> snd q)"

section \<open>Data model\<close>

record trade =
  t_trade_id :: string
  t_buy_date :: timestamp
  t_sell_date :: timestamp
  t_stock :: string
  t_buy_price :: rat
  t_sell_price :: rat
  t_quantity :: rat
  t_profit_loss :: rat
  t_position_size :: rat
  t_return_pct :: fval
  t_win_loss :: string

record client =
  c_client_id :: string
  c_username :: string
  c_name :: string
  c_email :: string
  c_starting_capital :: rat
  c_investment_start_date :: "timestamp option"
  c_active :: bool

record movement =
  m_movement_id :: string
  m_client_id :: string
  m_date :: timestamp
  m_type :: string
  m_amount :: rat
  m_notes :: string

record monthly_capital =
  o_month :: timestamp
  o_total_capital :: rat
  o_notes :: string

text \<open>
  \<open>config.json\<close> is a dictionary with the keys \<open>global\<close> and \<open>clients\<close>; either may be
  missing in a file that was not written by the program. An entry is a dictionary
  whose keys may be missing too, which is what the field-by-field fallback of
  \<open>get_config\<close> reads.
\<close>

record entry =
  e_tax_rate :: "rat option"
  e_trader_share :: "rat option"
  e_investor_share :: "rat option"
  e_auto_remove_day_trades :: "bool option"
  e_enable_sp500_comparison :: "bool option"

record config =
  cfg_global :: "entry option"
  cfg_clients :: "(string \<times> entry) list option"

record settings =
  tax_rate :: rat
  trader_share :: rat
  investor_share :: rat
  auto_remove_day_trades :: bool
  enable_sp500_comparison :: "bool option"

record state =
  st_config :: config
  st_trades_df :: "trade list"
  st_clients_df :: "client list"
  st_capital_movements_df :: "movement list"
  st_monthly_capital_df :: "monthly_capital list"

datatype error = KeyError string

section \<open>Configuration\<close>

definition dict_get :: "entry option \<Rightarrow> (entry \<Rightarrow> 'a option) \<Rightarrow> 'a \<Rightarrow> 'a" where
  \<comment> \<open>\<open>d.get(key, default)\<close> on a dictionary that may itself be the default \<open>{}\<close>\<close>
  "dict_get d key dflt =
     (case d of
        None \<Rightarrow> dflt
      | Some e \<Rightarrow> (case key e of None \<Rightarrow> dflt | Some v \<Rightarrow> v))"

definition get_config :: "config \<Rightarrow> string option \<Rightarrow> settings" where
  "get_config cfg client_id =
     (case client_id of
        None \<Rightarrow>
          \<lparr> tax_rate = dict_get (cfg_global cfg) e_tax_rate (1 / 4),
            trader_share = dict_get (cfg_global cfg) e_trader_share (2 / 5),
            investor_share = dict_get (cfg_global cfg) e_investor_share (3 / 5),
            auto_remove_day_trades = dict_get (cfg_global cfg) e_auto_remove_day_trades True,
            enable_sp500_comparison =
              Some (dict_get (cfg_global cfg) e_enable_sp500_comparison True) \<rparr>
      | Some cid \<Rightarrow>
          (let client_config = (case cfg_clients cfg of None \<Rightarrow> None | Some cs \<Rightarrow> map_of cs cid);
               global_config = cfg_global cfg
           in \<lparr> tax_rate =
                  dict_get client_config e_tax_rate (dict_get global_config e_tax_rate (1 / 4)),
                trader_share =
                  dict_get client_config e_trader_share (dict_get global_config e_trader_share (2 / 5)),
                investor_share =
                  dict_get client_config e_investor_share
                    (dict_get global_config e_investor_share (3 / 5)),
                auto_remove_day_trades = dict_get global_config e_auto_remove_day_trades True,
                enable_sp500_comparison = None \<rparr>))"

definition default_client_entry :: entry where
  "default_client_entry =
     \<lparr> e_tax_rate = Some (1 / 4), e_trader_share = Some (2 / 5),
       e_investor_share = Some (3 / 5), e_auto_remove_day_trades = None,
       e_enable_sp500_comparison = None \<rparr>"

definition set_rates :: "rat option \<Rightarrow> rat option \<Rightarrow> entry \<Rightarrow> entry" where
  \<comment> \<open>the two \<open>if ... is not None\<close> assignments, the same in both branches of \<open>update_config\<close>\<close>
  "set_rates tax trader e =
     (let e1 = (case tax of None \<Rightarrow> e | Some t \<Rightarrow> e\<lparr>e_tax_rate := Some t\<rparr>)
      in case trader of
           None \<Rightarrow> e1
         | Some s \<Rightarrow> e1\<lparr>e_trader_share := Some s, e_investor_share := Some (1 - s)\<rparr>)"

definition update_config :: "config \<Rightarrow> rat option \<Rightarrow> rat option \<Rightarrow> string option \<Rightarrow> error + config" where
  "update_config cfg tax trader client_id =
     (case client_id of
        None \<Rightarrow>
          (if tax = None \<and> trader = None then Inr cfg
           else case cfg_global cfg of
                  None \<Rightarrow> Inl (KeyError ''global'')
                | Some g \<Rightarrow> Inr (cfg\<lparr>cfg_global := Some (set_rates tax trader g)\<rparr>))
      | Some cid \<Rightarrow>
          (case cfg_clients cfg of
             None \<Rightarrow> Inl (KeyError ''clients'')
           | Some cs \<Rightarrow>
               (let e = (case map_of cs cid of None \<Rightarrow> default_client_entry | Some e \<Rightarrow> e)
                in Inr (cfg\<lparr>cfg_clients := Some (AList.update cid (set_rates tax trader e) cs)\<rparr>))))"

section \<open>Period capital\<close>

text \<open>
  The override table of a state is the frame \<open>_load_monthly_capital\<close> reads from its
  file, with the \<open>month\<close> column parsed to dates. When the file does not exist the
  program builds an empty frame instead, whose \<open>month\<close> column is not a date column;
  \<open>.dt\<close> raises \<open>AttributeError\<close> on that frame, in \<open>get_monthly_capital\<close> and in
  \<open>get_biweekly_capital\<close>, until the data is loaded from the files again. That frame is
  not a value of the state below: the definitions of this section say what the two
  functions return on a table that was loaded.
\<close>

definition movement_sum :: "string \<Rightarrow> movement list \<Rightarrow> rat" where
  \<comment> \<open>\<open>df[df['type'] == ty]['amount'].sum()\<close>\<close>
  "movement_sum ty ms = sum_list (map m_amount (filter (\<lambda>m. m_type m = ty) ms))"

definition get_monthly_capital :: "state \<Rightarrow> period \<Rightarrow> rat" where
  "get_monthly_capital st month_period =
     (case filter (\<lambda>r. to_period_M (o_month r) = month_period) (st_monthly_capital_df st) of
        r # _ \<Rightarrow> o_total_capital r
      | [] \<Rightarrow>
          (let total_client_capital = sum_list (map c_starting_capital (st_clients_df st))
           in if st_capital_movements_df st \<noteq> [] then
                (let movements_up_to_month =
                       filter (\<lambda>m. period_le (to_period_M (m_date m)) month_period)
                         (st_capital_movements_df st);
                     contributions = movement_sum ''contribution'' movements_up_to_month;
                     withdrawals = movement_sum ''withdrawal'' movements_up_to_month
                 in total_client_capital + (contributions - withdrawals))
              else total_client_capital))"

definition get_biweekly_capital :: "state \<Rightarrow> period \<Rightarrow> rat" where
  "get_biweekly_capital st period_period =
     (case filter (\<lambda>r. to_period_2W (o_month r) = period_period) (st_monthly_capital_df st) of
        r # _ \<Rightarrow> o_total_capital r
      | [] \<Rightarrow>
          (let total_client_capital = sum_list (map c_starting_capital (st_clients_df st))
           in if st_capital_movements_df st \<noteq> [] then
                (let movements_up_to_period =
                       filter (\<lambda>m. period_le (to_period_2W (m_date m)) period_period)
                         (st_capital_movements_df st);
                     contributions = movement_sum ''contribution'' movements_up_to_period;
                     withdrawals = movement_sum ''withdrawal'' movements_up_to_period
                 in total_client_capital + (contributions - withdrawals))
              else total_client_capital))"

section \<open>Period aggregator\<close>

text \<open>
  One row of \<open>monthly_stats\<close> or \<open>biweekly_stats\<close>. The columns \<open>Avg_Win_Pct\<close>,
  \<open>Avg_Loss_Pct\<close> and \<open>Period_Label\<close> are display data that no later computation
  reads; they are left out.
\<close>

record period_stats =
  s_period :: period
  s_total_pl :: rat
  s_total_trades :: nat
  s_winning_trades :: nat
  s_win_rate :: rat
  s_client_capital :: rat
  s_return_pct :: rat
  s_cumulative_return :: rat

definition client_trades :: "state \<Rightarrow> string option \<Rightarrow> trade list" where
  \<comment> \<open>the trades from the client's investment start date onwards; \<open>if client_id:\<close> is
      false for \<open>None\<close> and for the empty string\<close>
  "client_trades st client_id =
     (case client_id of
        None \<Rightarrow> st_trades_df st
      | Some cid \<Rightarrow>
          if cid = [] then st_trades_df st
          else (case filter (\<lambda>c. c_client_id c = cid) (st_clients_df st) of
                  [] \<Rightarrow> st_trades_df st
                | c # _ \<Rightarrow>
                    (case c_investment_start_date c of
                       None \<Rightarrow> st_trades_df st
                     | Some investment_start \<Rightarrow>
                         filter (\<lambda>t. investment_start \<le> t_sell_date t) (st_trades_df st))))"

definition return_pct_column :: "rat \<Rightarrow> rat \<Rightarrow> fval" where
  \<comment> \<open>\<open>(Total_PL / Client_Capital * 100).round(2).fillna(0).replace([inf, -inf], 0)\<close>\<close>
  "return_pct_column total_pl client_capital =
     replace_inf 0 (fillna 0 (fround2 (ftimes (fdiv total_pl client_capital) 100)))"

definition group_row :: "(timestamp \<Rightarrow> period) \<Rightarrow> (period \<Rightarrow> rat) \<Rightarrow> trade list \<Rightarrow> period \<Rightarrow> period_stats" where
  \<comment> \<open>the aggregate of one group of \<open>groupby\<close> and the columns computed from it\<close>
  "group_row to_period capital trades_df p =
     (let grp = filter (\<lambda>t. to_period (t_sell_date t) = p) trades_df;
          total_pl = sum_list (map t_profit_loss grp);
          total_trades = length grp;
          winning_trades = length (filter (\<lambda>t. t_win_loss t = ''Win'') grp);
          client_capital = capital p
      in \<lparr> s_period = p,
           s_total_pl = total_pl,
           s_total_trades = total_trades,
           s_winning_trades = winning_trades,
           s_win_rate = round2 (of_nat winning_trades / of_nat total_trades * 100),
           s_client_capital = client_capital,
           s_return_pct = finite_part (return_pct_column total_pl client_capital),
           s_cumulative_return = 0 \<rparr>)"

fun cumsum :: "rat \<Rightarrow> period_stats list \<Rightarrow> period_stats list" where
  \<comment> \<open>\<open>Cumulative_Return = Return_Pct.cumsum()\<close>\<close>
  "cumsum acc [] = []"
| "cumsum acc (r # rs) =
     r\<lparr>s_cumulative_return := acc + s_return_pct r\<rparr> # cumsum (acc + s_return_pct r) rs"

definition strategy_returns :: "(timestamp \<Rightarrow> period) \<Rightarrow> (period \<Rightarrow> rat) \<Rightarrow> trade list \<Rightarrow> period_stats list" where
  \<comment> \<open>\<open>groupby\<close> yields one row per distinct key, in ascending order of the keys, which
      have one frequency\<close>
  "strategy_returns to_period capital trades_df =
     cumsum 0
       (map (group_row to_period capital trades_df)
          (sort_key snd (remdups (map (\<lambda>t. to_period (t_sell_date t)) trades_df))))"

definition get_monthly_strategy_returns :: "state \<Rightarrow> string option \<Rightarrow> period_stats list" where
  "get_monthly_strategy_returns st client_id =
     (if st_trades_df st = [] then []
      else let trades_df = client_trades st client_id
           in if trades_df = [] then []
              else strategy_returns to_period_M (get_monthly_capital st) trades_df)"

definition get_biweekly_strategy_returns :: "state \<Rightarrow> string option \<Rightarrow> period_stats list" where
  "get_biweekly_strategy_returns st client_id =
     (if st_trades_df st = [] then []
      else let trades_df = client_trades st client_id
           in if trades_df = [] then []
              else strategy_returns to_period_2W (get_biweekly_capital st) trades_df)"

section \<open>Capital reconciliation\<close>

record period_breakdown =
  b_period :: int
  b_starting_capital :: rat
  b_contributions :: rat
  b_withdrawals :: rat
  b_net_contributions :: rat
  b_capital_after_contributions :: rat
  b_return_pct :: rat
  b_profit_after_tax :: rat
  b_investor_share :: rat
  b_trader_share :: rat
  b_ending_capital :: rat

record capital_flow =
  f_starting_capital :: rat
  f_current_capital :: rat
  f_total_contributions :: rat
  f_total_withdrawals :: rat
  f_total_returns :: rat
  f_monthly_breakdown :: "period_breakdown list"
  f_biweekly_breakdown :: "period_breakdown list"

text \<open>
  The two loops of \<open>get_client_capital_flow\<close> have the same body; they differ in the
  period column of the movements (\<open>to_period('2W')\<close> or \<open>to_period('M')\<close>) and in the
  names of their variables. Each compares that column with the period parsed from the
  row's string by \<open>pd.Period\<close>. In the breakdown the string is kept; the model keeps
  the ordinal of the period it names. \<open>walk_step\<close> is one iteration: it returns the running
  capital after the period and the dictionary appended to the breakdown.
\<close>

definition period_net :: "(timestamp \<Rightarrow> period) \<Rightarrow> movement list \<Rightarrow> period \<Rightarrow> rat \<times> rat" where
  \<comment> \<open>the client's contributions and withdrawals whose period equals \<open>p\<close>\<close>
  "period_net to_period movements p =
     (let period_movements = filter (\<lambda>m. to_period (m_date m) = p) movements
      in (movement_sum ''contribution'' period_movements,
          movement_sum ''withdrawal'' period_movements))"

definition period_return_amount :: "rat \<Rightarrow> rat \<Rightarrow> rat" where
  \<comment> \<open>the trading gain: \<open>current_capital * (period_return_pct / 100)\<close>\<close>
  "period_return_amount capital pct = capital * (pct / 100)"

definition walk_step :: "(timestamp \<Rightarrow> period) \<Rightarrow> settings \<Rightarrow> movement list \<Rightarrow> rat \<Rightarrow> period_stats \<Rightarrow> rat \<times> period_breakdown" where
  "walk_step to_period client_config movements current_capital period_data =
     (let period_period = parse_period (s_period period_data);
          period_contributions = fst (period_net to_period movements period_period);
          period_withdrawals = snd (period_net to_period movements period_period);
          net_contributions = period_contributions - period_withdrawals;
          period_starting_capital = current_capital;
          capital_after = current_capital + net_contributions;
          period_return_pct = s_return_pct period_data;
          gain = period_return_amount capital_after period_return_pct;
          profit_after_tax = gain * (1 - tax_rate client_config);
          investor = profit_after_tax * investor_share client_config;
          trader = profit_after_tax * trader_share client_config;
          new_capital = capital_after + investor
      in (new_capital,
          \<lparr> b_period = snd (s_period period_data),
            b_starting_capital = round2 period_starting_capital,
            b_contributions = round2 period_contributions,
            b_withdrawals = round2 period_withdrawals,
            b_net_contributions = round2 net_contributions,
            b_capital_after_contributions = round2 (period_starting_capital + net_contributions),
            b_return_pct = period_return_pct,
            b_profit_after_tax = round2 profit_after_tax,
            b_investor_share = round2 investor,
            b_trader_share = round2 trader,
            b_ending_capital = round2 new_capital \<rparr>))"

fun reconciliation_walk :: "(timestamp \<Rightarrow> period) \<Rightarrow> settings \<Rightarrow> movement list \<Rightarrow> rat \<Rightarrow> period_stats list \<Rightarrow> rat \<times> period_breakdown list" where
  "reconciliation_walk to_period client_config movements current_capital [] =
     (current_capital, [])"
| "reconciliation_walk to_period client_config movements current_capital (period_data # rest) =
     (case walk_step to_period client_config movements current_capital period_data of
        (new_capital, row) \<Rightarrow>
          (case reconciliation_walk to_period client_config movements new_capital rest of
             (final_capital, rows) \<Rightarrow> (final_capital, row # rows)))"

definition get_client_capital_flow :: "state \<Rightarrow> string \<Rightarrow> capital_flow option" where
  "get_client_capital_flow st client_id =
     (case filter (\<lambda>c. c_client_id c = client_id) (st_clients_df st) of
        [] \<Rightarrow> None
      | client_info # _ \<Rightarrow>
          (let starting_capital = c_starting_capital client_info;
               movements = filter (\<lambda>m. m_client_id m = client_id) (st_capital_movements_df st);
               total_contributions = movement_sum ''contribution'' movements;
               total_withdrawals = movement_sum ''withdrawal'' movements;
               base_capital = starting_capital + total_contributions - total_withdrawals;
               biweekly_returns = get_biweekly_strategy_returns st (Some client_id)
           in if biweekly_returns = [] then
                Some \<lparr> f_starting_capital = starting_capital,
                       f_current_capital = base_capital,
                       f_total_contributions = total_contributions,
                       f_total_withdrawals = total_withdrawals,
                       f_total_returns = 0,
                       f_monthly_breakdown = [],
                       f_biweekly_breakdown = [] \<rparr>
              else
                (let client_config = get_config (st_config st) (Some client_id);
                     total_available_capital =
                       starting_capital + total_contributions - total_withdrawals;
                     biweekly =
                       reconciliation_walk to_period_2W client_config movements
                         total_available_capital biweekly_returns;
                     current_capital = fst biweekly;
                     biweekly_breakdown = snd biweekly;
                     total_returns = sum_list (map b_profit_after_tax biweekly_breakdown);
                     monthly_returns = get_monthly_strategy_returns st (Some client_id);
                     monthly =
                       (if monthly_returns \<noteq> [] then
                          reconciliation_walk to_period_M client_config movements
                            starting_capital monthly_returns
                        else (starting_capital, []));
                     monthly_breakdown = snd monthly;
                     ending_capital =
                       (if monthly_breakdown \<noteq> [] then b_ending_capital (last monthly_breakdown)
                        else if biweekly_breakdown \<noteq> [] then
                          b_ending_capital (last biweekly_breakdown)
                        else current_capital);
                     total_returns2 =
                       (if monthly_breakdown \<noteq> [] then
                          sum_list (map b_profit_after_tax monthly_breakdown)
                        else total_returns)
                 in Some \<lparr> f_starting_capital = starting_capital,
                          f_current_capital = ending_capital,
                          f_total_contributions = total_contributions,
                          f_total_withdrawals = total_withdrawals,
                          f_total_returns = total_returns2,
                          f_monthly_breakdown = monthly_breakdown,
                          f_biweekly_breakdown = biweekly_breakdown \<rparr>)))"

section \<open>Notions used in the statements\<close>

definition capital_before :: "(timestamp \<Rightarrow> period) \<Rightarrow> settings \<Rightarrow> movement list \<Rightarrow> rat \<Rightarrow> period_stats list \<Rightarrow> nat \<Rightarrow> rat" where
  \<comment> \<open>the running capital when iteration \<open>i\<close> of a walk begins\<close>
  "capital_before to_period client_config movements start periods i =
     fst (reconciliation_walk to_period client_config movements start (take i periods))"


definition client_movements :: "state \<Rightarrow> string \<Rightarrow> movement list" where
  "client_movements st client_id =
     filter (\<lambda>m. m_client_id m = client_id) (st_capital_movements_df st)"

definition anchor :: "state \<Rightarrow> string \<Rightarrow> rat \<Rightarrow> rat" where
  \<comment> \<open>starting capital plus the client's all-time contributions less withdrawals\<close>
  "anchor st client_id starting_capital =
     starting_capital + movement_sum ''contribution'' (client_movements st client_id)
       - movement_sum ''withdrawal'' (client_movements st client_id)"

definition entry_shares_ok :: "entry \<Rightarrow> bool" where
  \<comment> \<open>an entry stores both shares, adding up to one, or neither\<close>
  "entry_shares_ok e =
     (case (e_trader_share e, e_investor_share e) of
        (Some t, Some i) \<Rightarrow> t + i = 1
      | (None, None) \<Rightarrow> True
      | _ \<Rightarrow> False)"

definition shares_ok :: "config \<Rightarrow> bool" where
  "shares_ok cfg =
     (trader_share (get_config cfg None) + investor_share (get_config cfg None) = 1
      \<and> (case cfg_clients cfg of
           None \<Rightarrow> True
         | Some cs \<Rightarrow> list_all (\<lambda>ce. entry_shares_ok (snd ce)) cs))"

section \<open>Example data\<close>

definition day_2025_05_05 :: timestamp where "day_2025_05_05 = 20213"
definition day_2025_06_02 :: timestamp where "day_2025_06_02 = 20241"
definition day_2025_06_03 :: timestamp where "day_2025_06_03 = 20242"
definition day_2025_07_07 :: timestamp where "day_2025_07_07 = 20276"
definition day_2025_07_08 :: timestamp where "day_2025_07_08 = 20277"

definition default_config :: config where
  \<comment> \<open>the configuration \<open>_load_config\<close> writes when there is no file\<close>
  "default_config =
     \<lparr> cfg_global = Some \<lparr> e_tax_rate = Some (1 / 4), e_trader_share = Some (2 / 5),
                           e_investor_share = Some (3 / 5),
                           e_auto_remove_day_trades = Some True,
                           e_enable_sp500_comparison = Some True \<rparr>,
       cfg_clients = Some [] \<rparr>"

definition mk_client :: "string \<Rightarrow> rat \<Rightarrow> client" where
  "mk_client cid cap =
     \<lparr> c_client_id = cid, c_username = cid, c_name = [], c_email = [],
       c_starting_capital = cap, c_investment_start_date = None, c_active = True \<rparr>"

definition mk_movement :: "string \<Rightarrow> timestamp \<Rightarrow> string \<Rightarrow> rat \<Rightarrow> movement" where
  "mk_movement cid d ty a =
     \<lparr> m_movement_id = ''MOV_0001'', m_client_id = cid, m_date = d, m_type = ty,
       m_amount = a, m_notes = [] \<rparr>"

definition june_win :: trade where
  \<comment> \<open>bought at 100, sold at 110, 100 shares: a profit of 1000\<close>
  "june_win =
     \<lparr> t_trade_id = ''TRADE_0001'', t_buy_date = day_2025_06_02, t_sell_date = day_2025_06_03,
       t_stock = ''ACME'', t_buy_price = 100, t_sell_price = 110, t_quantity = 100,
       t_profit_loss = 1000, t_position_size = 10000, t_return_pct = Fin 10,
       t_win_loss = ''Win'' \<rparr>"

definition july_loss :: trade where
  \<comment> \<open>bought at 125, sold at 115, 100 shares: a loss of 1000\<close>
  "july_loss =
     \<lparr> t_trade_id = ''TRADE_0002'', t_buy_date = day_2025_07_07, t_sell_date = day_2025_07_08,
       t_stock = ''ACME'', t_buy_price = 125, t_sell_price = 115, t_quantity = 100,
       t_profit_loss = - 1000, t_position_size = 12500, t_return_pct = Fin (- 8),
       t_win_loss = ''Loss'' \<rparr>"

definition tiny_win :: trade where
  \<comment> \<open>bought at 1, sold at 1.018, one share: a profit of 0.018\<close>
  "tiny_win =
     \<lparr> t_trade_id = ''TRADE_0001'', t_buy_date = day_2025_06_02, t_sell_date = day_2025_06_03,
       t_stock = ''ACME'', t_buy_price = 1, t_sell_price = 1018 / 1000, t_quantity = 1,
       t_profit_loss = 18 / 1000, t_position_size = 1, t_return_pct = Fin (18 / 10),
       t_win_loss = ''Win'' \<rparr>"

definition scenario :: state where
  \<comment> \<open>one client with 10000, no movements, one period returning 10 percent\<close>
  "scenario =
     \<lparr> st_config = default_config,
       st_trades_df = [june_win],
       st_clients_df = [mk_client ''alice'' 10000],
       st_capital_movements_df = [],
       st_monthly_capital_df = [] \<rparr>"

definition two_periods :: state where
  \<comment> \<open>a winning June and a losing July\<close>
  "two_periods = scenario\<lparr>st_trades_df := [june_win, july_loss]\<rparr>"

definition with_contribution :: state where
  \<comment> \<open>the client paid in 5000 in May, before the first trade\<close>
  "with_contribution =
     scenario\<lparr>st_capital_movements_df :=
       [mk_movement ''alice'' day_2025_05_05 ''contribution'' 5000]\<rparr>"

definition small_account :: state where
  \<comment> \<open>a client with 180 and one trade with a profit of 0.018\<close>
  "small_account =
     \<lparr> st_config = default_config,
       st_trades_df = [tiny_win],
       st_clients_df = [mk_client ''bob'' 180],
       st_capital_movements_df = [],
       st_monthly_capital_df = [] \<rparr>"

definition no_trades :: state where
  "no_trades = with_contribution\<lparr>st_trades_df := []\<rparr>"

text \<open>The ledgers the program returns on the example data.\<close>

definition scenario_row :: "int \<Rightarrow> period_breakdown" where
  "scenario_row p =
     \<lparr> b_period = p, b_starting_capital = 10000, b_contributions = 0, b_withdrawals = 0,
       b_net_contributions = 0, b_capital_after_contributions = 10000, b_return_pct = 10,
       b_profit_after_tax = 750, b_investor_share = 450, b_trader_share = 300,
       b_ending_capital = 10450 \<rparr>"

definition scenario_flow :: capital_flow where
  "scenario_flow =
     \<lparr> f_starting_capital = 10000, f_current_capital = 10450, f_total_contributions = 0,
       f_total_withdrawals = 0, f_total_returns = 750,
       f_monthly_breakdown = [scenario_row 665],
       f_biweekly_breakdown = [scenario_row 2892] \<rparr>"

definition july_row :: "int \<Rightarrow> period_breakdown" where
  "july_row p =
     \<lparr> b_period = p, b_starting_capital = 10450, b_contributions = 0, b_withdrawals = 0,
       b_net_contributions = 0, b_capital_after_contributions = 10450, b_return_pct = - 10,
       b_profit_after_tax = - (78375 / 100), b_investor_share = - (47025 / 100),
       b_trader_share = - (31350 / 100), b_ending_capital = 997975 / 100 \<rparr>"

definition two_periods_flow :: capital_flow where
  "two_periods_flow =
     \<lparr> f_starting_capital = 10000, f_current_capital = 997975 / 100,
       f_total_contributions = 0, f_total_withdrawals = 0, f_total_returns = - (3375 / 100),
       f_monthly_breakdown = [scenario_row 665, july_row 666],
       f_biweekly_breakdown = [scenario_row 2892, july_row 2897] \<rparr>"

definition with_contribution_flow :: capital_flow where
  "with_contribution_flow =
     \<lparr> f_starting_capital = 10000, f_current_capital = 1030015 / 100,
       f_total_contributions = 5000, f_total_withdrawals = 0, f_total_returns = 50025 / 100,
       f_monthly_breakdown =
         [\<lparr> b_period = 665, b_starting_capital = 10000, b_contributions = 0,
             b_withdrawals = 0, b_net_contributions = 0,
             b_capital_after_contributions = 10000, b_return_pct = 667 / 100,
             b_profit_after_tax = 50025 / 100, b_investor_share = 30015 / 100,
             b_trader_share = 20010 / 100, b_ending_capital = 1030015 / 100 \<rparr>],
       f_biweekly_breakdown =
         [\<lparr> b_period = 2892, b_starting_capital = 15000, b_contributions = 0,
             b_withdrawals = 0, b_net_contributions = 0,
             b_capital_after_contributions = 15000, b_return_pct = 667 / 100,
             b_profit_after_tax = 75038 / 100, b_investor_share = 45022 / 100,
             b_trader_share = 30015 / 100, b_ending_capital = 1545022 / 100 \<rparr>] \<rparr>"

definition small_account_row :: "int \<Rightarrow> period_breakdown" where
  "small_account_row p =
     \<lparr> b_period = p, b_starting_capital = 180, b_contributions = 0, b_withdrawals = 0,
       b_net_contributions = 0, b_capital_after_contributions = 180,
       b_return_pct = 1 / 100, b_profit_after_tax = 1 / 100, b_investor_share = 1 / 100,
       b_trader_share = 1 / 100, b_ending_capital = 18001 / 100 \<rparr>"

definition small_account_flow :: capital_flow where
  "small_account_flow =
     \<lparr> f_starting_capital = 180, f_current_capital = 18001 / 100, f_total_contributions = 0,
       f_total_withdrawals = 0, f_total_returns = 1 / 100,
       f_monthly_breakdown = [small_account_row 665],
       f_biweekly_breakdown = [small_account_row 2892] \<rparr>"

definition no_trades_flow :: capital_flow where
  "no_trades_flow =
     \<lparr> f_starting_capital = 10000, f_current_capital = 15000, f_total_contributions = 5000,
       f_total_withdrawals = 0, f_total_returns = 0, f_monthly_breakdown = [],
       f_biweekly_breakdown = [] \<rparr>"

definition updated_config :: config where
  \<comment> \<open>the default configuration after \<open>update_config(trader_share=0.3, client_id='alice')\<close>\<close>
  "updated_config =
     default_config
       \<lparr>cfg_clients :=
          Some [(''alice'', \<lparr> e_tax_rate = Some (1 / 4), e_trader_share = Some (3 / 10),
                               e_investor_share = Some (7 / 10),
                               e_auto_remove_day_trades = None,
                               e_enable_sp500_comparison = None \<rparr>)]\<rparr>"


definition partial_config :: config where
  \<comment> \<open>a \<open>config.json\<close> whose entry for alice holds a trader share only\<close>
  "partial_config =
     default_config
       \<lparr>cfg_clients :=
          Some [(''alice'', \<lparr> e_tax_rate = None, e_trader_share = Some (2 / 5),
                               e_investor_share = None, e_auto_remove_day_trades = None,
                               e_enable_sp500_comparison = None \<rparr>)]\<rparr>"


definition partial_config_updated :: config where
  \<comment> \<open>\<open>partial_config\<close> after \<open>update_config(trader_share=0.5)\<close>\<close>
  "partial_config_updated =
     partial_config
       \<lparr>cfg_global :=
          Some \<lparr> e_tax_rate = Some (1 / 4), e_trader_share = Some (1 / 2),
                 e_investor_share = Some (1 / 2), e_auto_remove_day_trades = Some True,
                 e_enable_sp500_comparison = Some True \<rparr>\<rparr>"

section \<open>Rounding\<close>

lemma round_half_even_err: "\<bar>of_int (round_half_even x) - x\<bar> \<le> 1 / 2"
proof -
  have "of_int \<lfloor>x\<rfloor> \<le> x" and "x < of_int \<lfloor>x\<rfloor> + 1"
    by linarith+
  then show ?thesis
    by (auto simp: round_half_even_def Let_def)
qed

lemma round2_err: "\<bar>round2 x - x\<bar> \<le> 1 / 200"
proof -
  have "\<bar>of_int (round_half_even (x * 100)) - x * 100\<bar> \<le> 1 / 2"
    by (rule round_half_even_err)
  then show ?thesis
    by (simp add: round2_def abs_le_iff field_simps)
qed

lemma round2_split_cent: "\<bar>round2 a + round2 b - round2 (a + b)\<bar> \<le> 1 / 100"
proof -
  define k where "k = round_half_even (a * 100) + round_half_even (b * 100)
                       - round_half_even ((a + b) * 100)"
  have eq: "round2 a + round2 b - round2 (a + b) = of_int k / 100"
    by (simp add: round2_def k_def diff_divide_distrib add_divide_distrib)
  have "\<bar>round2 a - a\<bar> \<le> 1 / 200" "\<bar>round2 b - b\<bar> \<le> 1 / 200"
       "\<bar>round2 (a + b) - (a + b)\<bar> \<le> 1 / 200"
    by (rule round2_err)+
  then have "\<bar>round2 a + round2 b - round2 (a + b)\<bar> \<le> 3 / 200"
    by linarith
  then have "\<bar>(of_int k :: rat)\<bar> \<le> 3 / 2"
    by (simp add: eq)
  then have "\<bar>(of_int k :: rat)\<bar> < of_int 2"
    by linarith
  then have "\<bar>k\<bar> < 2"
    by (metis of_int_abs of_int_less_iff)
  then have "\<bar>k\<bar> \<le> 1"
    by linarith
  then have "\<bar>(of_int k :: rat)\<bar> \<le> 1"
    by (metis of_int_abs of_int_le_iff of_int_1)
  then show ?thesis
    by (simp add: eq)
qed


section \<open>The reconciliation walk\<close>

lemma walk_Cons:
  "reconciliation_walk tp cfg ms c (p # ps) =
     (fst (reconciliation_walk tp cfg ms (fst (walk_step tp cfg ms c p)) ps),
      snd (walk_step tp cfg ms c p)
        # snd (reconciliation_walk tp cfg ms (fst (walk_step tp cfg ms c p)) ps))"
  by (simp split: prod.splits)

lemma walk_length [simp]:
  "length (snd (reconciliation_walk tp cfg ms c ps)) = length ps"
  by (induction ps arbitrary: c)
     (simp_all add: walk_Cons del: reconciliation_walk.simps(2))

lemma capital_before_0 [simp]: "capital_before tp cfg ms c ps 0 = c"
  by (simp add: capital_before_def)

lemma capital_before_Cons_Suc:
  "capital_before tp cfg ms c (p # ps) (Suc i) =
     capital_before tp cfg ms (fst (walk_step tp cfg ms c p)) ps i"
  by (simp add: capital_before_def walk_Cons del: reconciliation_walk.simps(2))

lemma capital_before_Suc:
  "i < length ps \<Longrightarrow>
   capital_before tp cfg ms c ps (Suc i) =
     fst (walk_step tp cfg ms (capital_before tp cfg ms c ps i) (ps ! i))"
proof (induction ps arbitrary: c i)
  case Nil
  then show ?case by simp
next
  case (Cons p ps)
  show ?case
  proof (cases i)
    case 0
    then show ?thesis
      by (simp add: capital_before_def walk_Cons del: reconciliation_walk.simps(2))
  next
    case (Suc j)
    with Cons.prems have "j < length ps" by simp
    from Cons.IH [OF this] show ?thesis
      by (simp add: Suc capital_before_Cons_Suc)
  qed
qed

lemma capital_before_all:
  "capital_before tp cfg ms c ps (length ps) = fst (reconciliation_walk tp cfg ms c ps)"
  by (simp add: capital_before_def)

lemma walk_nth:
  "i < length ps \<Longrightarrow>
   snd (reconciliation_walk tp cfg ms c ps) ! i =
     snd (walk_step tp cfg ms (capital_before tp cfg ms c ps i) (ps ! i))"
proof (induction ps arbitrary: c i)
  case Nil
  then show ?case by simp
next
  case (Cons p ps)
  show ?case
  proof (cases i)
    case 0
    then show ?thesis
      by (simp add: walk_Cons del: reconciliation_walk.simps(2))
  next
    case (Suc j)
    with Cons.prems have "j < length ps" by simp
    from Cons.IH [OF this] show ?thesis
      by (simp add: Suc walk_Cons capital_before_Cons_Suc del: reconciliation_walk.simps(2))
  qed
qed


lemma walk_step_starting: "b_starting_capital (snd (walk_step tp cfg ms c p)) = round2 c"
  by (simp add: walk_step_def Let_def)

lemma walk_step_ending:
  "b_ending_capital (snd (walk_step tp cfg ms c p)) = round2 (fst (walk_step tp cfg ms c p))"
  by (simp add: walk_step_def Let_def)

lemma walk_step_profit:
  "b_profit_after_tax (snd (walk_step tp cfg ms c p)) =
     round2 (period_return_amount
               (c + (fst (period_net tp ms (parse_period (s_period p))) - snd (period_net tp ms (parse_period (s_period p)))))
               (s_return_pct p)
             * (1 - tax_rate cfg))"
  by (simp add: walk_step_def Let_def)

lemma walk_step_investor:
  "b_investor_share (snd (walk_step tp cfg ms c p)) =
     round2 (period_return_amount
               (c + (fst (period_net tp ms (parse_period (s_period p))) - snd (period_net tp ms (parse_period (s_period p)))))
               (s_return_pct p)
             * (1 - tax_rate cfg) * investor_share cfg)"
  by (simp add: walk_step_def Let_def)

lemma walk_step_trader:
  "b_trader_share (snd (walk_step tp cfg ms c p)) =
     round2 (period_return_amount
               (c + (fst (period_net tp ms (parse_period (s_period p))) - snd (period_net tp ms (parse_period (s_period p)))))
               (s_return_pct p)
             * (1 - tax_rate cfg) * trader_share cfg)"
  by (simp add: walk_step_def Let_def)

lemma walk_chain:
  assumes "Suc i < length ps"
  shows "b_starting_capital (snd (reconciliation_walk tp cfg ms c ps) ! Suc i) =
         b_ending_capital (snd (reconciliation_walk tp cfg ms c ps) ! i)"
proof -
  from assms have i: "i < length ps" by simp
  show ?thesis
    by (simp only: walk_nth [OF assms] walk_nth [OF i] walk_step_starting walk_step_ending
          capital_before_Suc [OF i])
qed

lemma walk_first:
  "ps \<noteq> [] \<Longrightarrow>
   b_starting_capital (hd (snd (reconciliation_walk tp cfg ms c ps))) = round2 c"
  by (cases ps) (simp_all add: walk_Cons walk_step_starting del: reconciliation_walk.simps(2))

lemma walk_last:
  assumes "ps \<noteq> []"
  shows "b_ending_capital (last (snd (reconciliation_walk tp cfg ms c ps))) =
         round2 (fst (reconciliation_walk tp cfg ms c ps))"
proof -
  from assms obtain n where n: "length ps = Suc n"
    by (cases ps) auto
  then have lt: "n < length ps" by simp
  have ne: "snd (reconciliation_walk tp cfg ms c ps) \<noteq> []"
    using assms by (metis length_0_conv walk_length)
  have "last (snd (reconciliation_walk tp cfg ms c ps)) =
        snd (reconciliation_walk tp cfg ms c ps) ! n"
    using n by (simp add: last_conv_nth [OF ne])
  then show ?thesis
    using capital_before_Suc [OF lt, of tp cfg ms c] capital_before_all [of tp cfg ms c ps]
    by (simp add: walk_nth [OF lt] walk_step_ending n)
qed

lemma cumsum_length [simp]: "length (cumsum a rs) = length rs"
  by (induction rs arbitrary: a) auto

lemma strategy_returns_Nil [simp]: "strategy_returns tp cap ts = [] \<longleftrightarrow> ts = []"
proof -
  have "length (strategy_returns tp cap ts) = length (remdups (map (\<lambda>t. tp (t_sell_date t)) ts))"
    by (simp add: strategy_returns_def)
  then show ?thesis
    by (metis length_0_conv map_is_Nil_conv remdups_eq_nil_iff)
qed

lemma returns_Nil_iff:
  "get_monthly_strategy_returns st cid = [] \<longleftrightarrow> get_biweekly_strategy_returns st cid = []"
  by (simp add: get_monthly_strategy_returns_def get_biweekly_strategy_returns_def Let_def)



section \<open>The capital flow of a client\<close>

lemma find_filter: "find P xs = (case filter P xs of [] \<Rightarrow> None | x # _ \<Rightarrow> Some x)"
  by (induction xs) auto

lemma filter_Nil_find: "filter P xs = [] \<longleftrightarrow> find P xs = None"
  by (simp add: find_filter split: list.splits)

lemma filter_Cons_find: "filter P xs = x # ys \<Longrightarrow> find P xs = Some x"
  by (simp add: find_filter)

lemma monthly_returns_Nil:
  "get_biweekly_strategy_returns st cid = [] \<Longrightarrow> get_monthly_strategy_returns st cid = []"
  by (simp add: returns_Nil_iff)

lemma flow_None:
  "get_client_capital_flow st cid = None \<longleftrightarrow>
   find (\<lambda>c. c_client_id c = cid) (st_clients_df st) = None"
  by (simp add: get_client_capital_flow_def find_filter Let_def split: list.splits)

lemma flow_start:
  assumes "get_client_capital_flow st cid = Some r"
  shows "map_option c_starting_capital (find (\<lambda>c. c_client_id c = cid) (st_clients_df st))
         = Some (f_starting_capital r)"
  using assms
  by (auto simp: get_client_capital_flow_def find_filter Let_def split: list.splits if_splits)

lemma flow_totals:
  assumes "get_client_capital_flow st cid = Some r"
  shows "f_total_contributions r = movement_sum ''contribution'' (client_movements st cid)"
    and "f_total_withdrawals r = movement_sum ''withdrawal'' (client_movements st cid)"
  using assms
  by (auto simp: get_client_capital_flow_def client_movements_def Let_def
           split: list.splits if_splits)

lemma flow_biweekly:
  assumes "get_client_capital_flow st cid = Some r"
  shows "f_biweekly_breakdown r =
         snd (reconciliation_walk to_period_2W (get_config (st_config st) (Some cid))
                (client_movements st cid) (anchor st cid (f_starting_capital r))
                (get_biweekly_strategy_returns st (Some cid)))"
  using assms
  by (auto simp: get_client_capital_flow_def client_movements_def anchor_def Let_def
           split: list.splits if_splits)

lemma flow_monthly:
  assumes "get_client_capital_flow st cid = Some r"
  shows "f_monthly_breakdown r =
         snd (reconciliation_walk to_period_M (get_config (st_config st) (Some cid))
                (client_movements st cid) (f_starting_capital r)
                (get_monthly_strategy_returns st (Some cid)))"
  using assms
  by (auto simp: get_client_capital_flow_def client_movements_def Let_def monthly_returns_Nil
           split: list.splits if_splits)

lemma flow_monthly_figures:
  assumes "get_client_capital_flow st cid = Some r" and "f_monthly_breakdown r \<noteq> []"
  shows "f_current_capital r = b_ending_capital (last (f_monthly_breakdown r))"
    and "f_total_returns r = sum_list (map b_profit_after_tax (f_monthly_breakdown r))"
  using assms
  by (auto simp: get_client_capital_flow_def Let_def split: list.splits if_splits)

lemma flow_no_periods:
  assumes "get_client_capital_flow st cid = Some r" and "f_monthly_breakdown r = []"
  shows "f_biweekly_breakdown r = []"
    and "f_current_capital r = anchor st cid (f_starting_capital r)"
    and "f_total_returns r = 0"
proof -
  have m: "get_monthly_strategy_returns st (Some cid) = []"
    using flow_monthly [OF assms(1)] assms(2) by (metis length_0_conv walk_length)
  then have b: "get_biweekly_strategy_returns st (Some cid) = []"
    by (simp add: returns_Nil_iff)
  show "f_biweekly_breakdown r = []"
    using flow_biweekly [OF assms(1)] b by simp
  show "f_current_capital r = anchor st cid (f_starting_capital r)"
    using assms(1) b
    by (auto simp: get_client_capital_flow_def client_movements_def anchor_def Let_def
             split: list.splits)
  show "f_total_returns r = 0"
    using assms(1) b
    by (auto simp: get_client_capital_flow_def Let_def split: list.splits)
qed

lemma client_trades_Nil_returns:
  "client_trades st cid = [] \<Longrightarrow> get_biweekly_strategy_returns st cid = []"
  by (simp add: get_biweekly_strategy_returns_def)

section \<open>The aggregators\<close>







section \<open>Configuration updates\<close>

lemma set_rates_trader:
  "e_trader_share (set_rates tax (Some s) e) = Some s"
  "e_investor_share (set_rates tax (Some s) e) = Some (1 - s)"
  by (simp_all add: set_rates_def Let_def split: option.splits)

lemma set_rates_keeps:
  "e_trader_share (set_rates tax None e) = e_trader_share e"
  "e_investor_share (set_rates tax None e) = e_investor_share e"
  by (simp_all add: set_rates_def Let_def split: option.splits)

lemma set_rates_shares_ok: "entry_shares_ok e \<Longrightarrow> entry_shares_ok (set_rates tax trader e)"
  by (cases trader) (simp_all add: entry_shares_ok_def set_rates_trader set_rates_keeps)

lemma default_client_entry_ok: "entry_shares_ok default_client_entry"
  by (simp add: entry_shares_ok_def default_client_entry_def)

lemma list_all_update:
  "list_all (\<lambda>ce. Q (snd ce)) cs \<Longrightarrow> Q v \<Longrightarrow> list_all (\<lambda>ce. Q (snd ce)) (AList.update k v cs)"
  by (induction cs) auto

lemma list_all_map_of:
  "list_all (\<lambda>ce. Q (snd ce)) cs \<Longrightarrow> map_of cs k = Some e \<Longrightarrow> Q e"
  by (induction cs) (auto split: if_splits)

lemma entry_shares_sum:
  assumes "entry_shares_ok e" and "t + i = 1"
  shows "dict_get (Some e) e_trader_share t + dict_get (Some e) e_investor_share i = 1"
  using assms
  by (auto simp: entry_shares_ok_def dict_get_def split: option.splits)

lemma shares_ok_resolved:
  assumes "shares_ok cfg"
  shows "trader_share (get_config cfg who) + investor_share (get_config cfg who) = 1"
proof (cases who)
  case None
  with assms show ?thesis
    by (simp add: shares_ok_def)
next
  case (Some cid)
  from assms have g: "dict_get (cfg_global cfg) e_trader_share (2 / 5)
                      + dict_get (cfg_global cfg) e_investor_share (3 / 5) = 1"
    by (simp add: shares_ok_def get_config_def)
  show ?thesis
  proof (cases "case cfg_clients cfg of None \<Rightarrow> None | Some cs \<Rightarrow> map_of cs cid")
    case None
    then show ?thesis
      using g by (simp add: Some get_config_def Let_def dict_get_def)
  next
    case (Some e)
    then obtain cs where cs: "cfg_clients cfg = Some cs" "map_of cs cid = Some e"
      by (auto split: option.splits)
    with assms have "entry_shares_ok e"
      by (auto simp: shares_ok_def dest: list_all_map_of)
    from entry_shares_sum [OF this g] show ?thesis
      by (simp add: \<open>who = Some cid\<close> get_config_def Let_def cs)
  qed
qed

lemma update_config_shares_ok:
  assumes "update_config cfg tax trader target = Inr cfg'" and "shares_ok cfg"
  shows "shares_ok cfg'"
proof (cases target)
  case None
  show ?thesis
  proof (cases "tax = None \<and> trader = None")
    case True
    with assms None show ?thesis
      by (simp add: update_config_def)
  next
    case False
    with assms None obtain g where g: "cfg_global cfg = Some g"
      and c: "cfg' = cfg\<lparr>cfg_global := Some (set_rates tax trader g)\<rparr>"
      by (auto simp: update_config_def split: option.splits)
    have "dict_get (Some (set_rates tax trader g)) e_trader_share (2 / 5)
          + dict_get (Some (set_rates tax trader g)) e_investor_share (3 / 5) = 1"
    proof (cases trader)
      case None
      with assms(2) g show ?thesis
        by (simp add: shares_ok_def get_config_def dict_get_def set_rates_keeps)
    next
      case (Some s)
      then show ?thesis
        by (simp add: dict_get_def set_rates_trader)
    qed
    with assms(2) show ?thesis
      by (simp add: c shares_ok_def get_config_def)
  qed
next
  case (Some cid)
  with assms obtain cs where cs: "cfg_clients cfg = Some cs"
    and c: "cfg' = cfg\<lparr>cfg_clients := Some (AList.update cid
               (set_rates tax trader
                  (case map_of cs cid of None \<Rightarrow> default_client_entry | Some e \<Rightarrow> e)) cs)\<rparr>"
    by (auto simp: update_config_def Let_def split: option.splits)
  from assms(2) cs have all: "list_all (\<lambda>ce. entry_shares_ok (snd ce)) cs"
    by (simp add: shares_ok_def)
  have "entry_shares_ok (case map_of cs cid of None \<Rightarrow> default_client_entry | Some e \<Rightarrow> e)"
    using all by (auto simp: default_client_entry_ok split: option.splits dest: list_all_map_of)
  then have "entry_shares_ok (set_rates tax trader
               (case map_of cs cid of None \<Rightarrow> default_client_entry | Some e \<Rightarrow> e))"
    by (rule set_rates_shares_ok)
  from list_all_update [where Q = entry_shares_ok, OF all this] assms(2) show ?thesis
    by (simp add: c shares_ok_def get_config_def)
qed

lemma update_config_recomputes:
  assumes "update_config cfg tax (Some s) target = Inr cfg'"
  shows "trader_share (get_config cfg' target) = s"
    and "investor_share (get_config cfg' target) = 1 - s"
  using assms
  by (auto simp: update_config_def get_config_def Let_def dict_get_def set_rates_trader
                 update_conv'
           split: option.splits)

lemma walk_row_split:
  assumes "b \<in> set (snd (reconciliation_walk tp cfg ms c ps))"
  shows "\<exists>p. b_profit_after_tax b = round2 p
             \<and> b_investor_share b = round2 (p * investor_share cfg)
             \<and> b_trader_share b = round2 (p * trader_share cfg)"
proof -
  from assms obtain i where i: "i < length ps"
    and b: "b = snd (reconciliation_walk tp cfg ms c ps) ! i"
    by (auto simp: in_set_conv_nth)
  show ?thesis
    unfolding b walk_nth [OF i] walk_step_profit walk_step_investor walk_step_trader
    by blast
qed

lemma flow_row_split:
  assumes "get_client_capital_flow st cid = Some r"
    and "b \<in> set (f_monthly_breakdown r) \<union> set (f_biweekly_breakdown r)"
  shows "\<exists>p. b_profit_after_tax b = round2 p
             \<and> b_investor_share b = round2 (p * investor_share (get_config (st_config st) (Some cid)))
             \<and> b_trader_share b = round2 (p * trader_share (get_config (st_config st) (Some cid)))"
  using assms(2)
  unfolding flow_monthly [OF assms(1)] flow_biweekly [OF assms(1)]
  by (auto dest: walk_row_split)

section \<open>The example ledgers\<close>

lemma flow_scenario: "get_client_capital_flow scenario ''alice'' = Some scenario_flow"
  by code_simp

lemma flow_two_periods: "get_client_capital_flow two_periods ''alice'' = Some two_periods_flow"
  by code_simp

lemma flow_with_contribution:
  "get_client_capital_flow with_contribution ''alice'' = Some with_contribution_flow"
  by code_simp

lemma flow_small_account: "get_client_capital_flow small_account ''bob'' = Some small_account_flow"
  by code_simp

lemma flow_no_trades: "get_client_capital_flow no_trades ''alice'' = Some no_trades_flow"
  by code_simp


section \<open>The capital a walk starts from\<close>

text \<open>
  For every client the program finds, the biweekly ledger is the walk started at the
  anchor (starting capital plus all-time contributions less all-time withdrawals of that
  client) and the monthly ledger is the walk started at the client's literal starting
  capital. When a ledger has a period, the \<open>starting_capital\<close> field of its first
  period is that initial value rounded to two decimals.
\<close>

lemma flow_walk_starts:
  assumes "get_client_capital_flow st cid = Some r"
  shows "map_option c_starting_capital (find (\<lambda>c. c_client_id c = cid) (st_clients_df st))
           = Some (f_starting_capital r)
         \<and> anchor st cid (f_starting_capital r)
           = f_starting_capital r + f_total_contributions r - f_total_withdrawals r
         \<and> f_biweekly_breakdown r =
             snd (reconciliation_walk to_period_2W (get_config (st_config st) (Some cid))
                    (client_movements st cid) (anchor st cid (f_starting_capital r))
                    (get_biweekly_strategy_returns st (Some cid)))
         \<and> f_monthly_breakdown r =
             snd (reconciliation_walk to_period_M (get_config (st_config st) (Some cid))
                    (client_movements st cid) (f_starting_capital r)
                    (get_monthly_strategy_returns st (Some cid)))
         \<and> (f_biweekly_breakdown r \<noteq> [] \<longrightarrow>
               b_starting_capital (hd (f_biweekly_breakdown r))
                 = round2 (anchor st cid (f_starting_capital r)))
         \<and> (f_monthly_breakdown r \<noteq> [] \<longrightarrow>
               b_starting_capital (hd (f_monthly_breakdown r)) = round2 (f_starting_capital r))"
proof -
  note b = flow_biweekly [OF assms] and m = flow_monthly [OF assms]
  have a: "anchor st cid (f_starting_capital r)
           = f_starting_capital r + f_total_contributions r - f_total_withdrawals r"
    by (simp add: anchor_def flow_totals [OF assms])
  have hb: "b_starting_capital (hd (f_biweekly_breakdown r))
              = round2 (anchor st cid (f_starting_capital r))"
    if "f_biweekly_breakdown r \<noteq> []"
  proof -
    from that b have "get_biweekly_strategy_returns st (Some cid) \<noteq> []"
      by (metis length_0_conv walk_length)
    then show ?thesis
      unfolding b by (rule walk_first)
  qed
  have hm: "b_starting_capital (hd (f_monthly_breakdown r)) = round2 (f_starting_capital r)"
    if "f_monthly_breakdown r \<noteq> []"
  proof -
    from that m have "get_monthly_strategy_returns st (Some cid) \<noteq> []"
      by (metis length_0_conv walk_length)
    then show ?thesis
      unfolding m by (rule walk_first)
  qed
  from flow_start [OF assms] a b m hb hm show ?thesis
    by blast
qed

text \<open>
  Claim C1 says that both walks start at the anchor. The biweekly walk does
  (\<open>current_capital = total_available_capital\<close>), and so does the result for a client
  without trades; the monthly walk does not (\<open>monthly_current_capital = starting_capital\<close>).
  On the example the client paid in 5000 in May and the first trade is sold in June: the
  anchor is 15000 and the first biweekly period starts at 15000, but the first monthly
  period starts at 10000, and the returned current capital, taken from the monthly walk,
  is 10300.15.
\<close>

theorem C1_monthly_walk_start:
  "get_client_capital_flow with_contribution ''alice'' = Some with_contribution_flow
   \<and> f_starting_capital with_contribution_flow + f_total_contributions with_contribution_flow
       - f_total_withdrawals with_contribution_flow = 15000
   \<and> b_starting_capital (hd (f_biweekly_breakdown with_contribution_flow)) = 15000
   \<and> b_starting_capital (hd (f_monthly_breakdown with_contribution_flow)) = 10000
   \<and> b_starting_capital (hd (f_monthly_breakdown with_contribution_flow))
       \<noteq> f_starting_capital with_contribution_flow
           + f_total_contributions with_contribution_flow
           - f_total_withdrawals with_contribution_flow
   \<and> f_current_capital with_contribution_flow = 1030015 / 100
   \<and> get_client_capital_flow no_trades ''alice'' = Some no_trades_flow
   \<and> f_current_capital no_trades_flow = 15000"
  using flow_with_contribution flow_no_trades
  by (simp add: with_contribution_flow_def no_trades_flow_def)

section \<open>The scenario of the specification\<close>

text \<open>
  Claim C2. A client with a starting capital of 10000 and no capital movements, one
  period with a return of 10 percent, a tax rate of 0.25 and a trader share of 0.40
  (the default configuration, so the investor share is 0.60): the trading gain is 1000,
  and both walks emit one period with capital after contributions 10000, profit after
  tax 750, investor share 450, trader share 300 and ending capital 10450.
\<close>

theorem C2_scenario:
  "st_capital_movements_df scenario = []
   \<and> map c_starting_capital (st_clients_df scenario) = [10000]
   \<and> map s_return_pct (get_monthly_strategy_returns scenario (Some ''alice'')) = [10]
   \<and> map s_return_pct (get_biweekly_strategy_returns scenario (Some ''alice'')) = [10]
   \<and> tax_rate (get_config (st_config scenario) (Some ''alice'')) = 1 / 4
   \<and> trader_share (get_config (st_config scenario) (Some ''alice'')) = 2 / 5
   \<and> investor_share (get_config (st_config scenario) (Some ''alice'')) = 3 / 5
   \<and> period_return_amount 10000 10 = 1000
   \<and> get_client_capital_flow scenario ''alice'' =
       Some \<lparr> f_starting_capital = 10000, f_current_capital = 10450,
              f_total_contributions = 0, f_total_withdrawals = 0, f_total_returns = 750,
              f_monthly_breakdown =
                [\<lparr> b_period = 665, b_starting_capital = 10000, b_contributions = 0,
                    b_withdrawals = 0, b_net_contributions = 0,
                    b_capital_after_contributions = 10000, b_return_pct = 10,
                    b_profit_after_tax = 750, b_investor_share = 450,
                    b_trader_share = 300, b_ending_capital = 10450 \<rparr>],
              f_biweekly_breakdown =
                [\<lparr> b_period = 2892, b_starting_capital = 10000, b_contributions = 0,
                    b_withdrawals = 0, b_net_contributions = 0,
                    b_capital_after_contributions = 10000, b_return_pct = 10,
                    b_profit_after_tax = 750, b_investor_share = 450,
                    b_trader_share = 300, b_ending_capital = 10450 \<rparr>] \<rparr>"
  by code_simp

section \<open>Split conservation\<close>

text \<open>
  Claim C3, as stated, fails in both of its parts. The emitted amounts are rounded to two
  decimals one by one: on the first example the profit after tax is 0.0135, emitted as
  0.01, and its shares 0.0081 and 0.0054 are emitted as 0.01 each, although the investor
  share and the trader share of the configuration add up to one. And \<open>update_config\<close>
  recomputes the investor share of the entry it writes to, not of the entries that fall
  back on it: on the second example the entry of alice holds a trader share of 0.4 and
  no investor share, every resolved configuration has shares adding up to one, and
  after the global trader share is set to 0.5 the configuration of alice resolves to a
  trader share of 0.4 and an investor share of 0.5.
\<close>

theorem C3_counterexample:
  "get_client_capital_flow small_account ''bob'' = Some small_account_flow
   \<and> investor_share (get_config (st_config small_account) (Some ''bob''))
       + trader_share (get_config (st_config small_account) (Some ''bob'')) = 1
   \<and> b_profit_after_tax (hd (f_monthly_breakdown small_account_flow)) = 1 / 100
   \<and> b_investor_share (hd (f_monthly_breakdown small_account_flow))
       + b_trader_share (hd (f_monthly_breakdown small_account_flow)) = 2 / 100
   \<and> b_investor_share (hd (f_monthly_breakdown small_account_flow))
       + b_trader_share (hd (f_monthly_breakdown small_account_flow))
       \<noteq> b_profit_after_tax (hd (f_monthly_breakdown small_account_flow))
   \<and> trader_share (get_config partial_config None)
       + investor_share (get_config partial_config None) = 1
   \<and> trader_share (get_config partial_config (Some ''alice''))
       + investor_share (get_config partial_config (Some ''alice'')) = 1
   \<and> trader_share (get_config partial_config (Some ''bob''))
       + investor_share (get_config partial_config (Some ''bob'')) = 1
   \<and> update_config partial_config None (Some (1 / 2)) None = Inr partial_config_updated
   \<and> trader_share (get_config partial_config_updated (Some ''alice'')) = 2 / 5
   \<and> investor_share (get_config partial_config_updated (Some ''alice'')) = 1 / 2
   \<and> trader_share (get_config partial_config_updated (Some ''alice''))
       + investor_share (get_config partial_config_updated (Some ''alice'')) \<noteq> 1"
proof -
  have a: "investor_share (get_config (st_config small_account) (Some ''bob''))
           + trader_share (get_config (st_config small_account) (Some ''bob'')) = 1"
    by code_simp
  have b: "trader_share (get_config partial_config None)
           + investor_share (get_config partial_config None) = 1"
          "trader_share (get_config partial_config (Some ''alice''))
           + investor_share (get_config partial_config (Some ''alice'')) = 1"
          "trader_share (get_config partial_config (Some ''bob''))
           + investor_share (get_config partial_config (Some ''bob'')) = 1"
    by code_simp+
  have u: "update_config partial_config None (Some (1 / 2)) None = Inr partial_config_updated"
    by code_simp
  have c: "trader_share (get_config partial_config_updated (Some ''alice'')) = 2 / 5"
          "investor_share (get_config partial_config_updated (Some ''alice'')) = 1 / 2"
    by code_simp+
  have d: "trader_share (get_config partial_config_updated (Some ''alice''))
           + investor_share (get_config partial_config_updated (Some ''alice'')) \<noteq> 1"
    by (simp add: c)
  have e: "b_profit_after_tax (hd (f_monthly_breakdown small_account_flow)) = 1 / 100"
          "b_investor_share (hd (f_monthly_breakdown small_account_flow))
           + b_trader_share (hd (f_monthly_breakdown small_account_flow)) = 2 / 100"
          "b_investor_share (hd (f_monthly_breakdown small_account_flow))
           + b_trader_share (hd (f_monthly_breakdown small_account_flow))
           \<noteq> b_profit_after_tax (hd (f_monthly_breakdown small_account_flow))"
    by (simp_all add: small_account_flow_def small_account_row_def)
  from flow_small_account a b u c d e show ?thesis
    by blast
qed

text \<open>
  Claim C3, amended. In every period of either ledger, when the investor share and the
  trader share of the resolved configuration lie between 0 and 1 and add up to one, and
  the emitted profit after tax is at most \<open>10\<^sup>9\<close> in absolute value, the emitted investor
  share plus the emitted trader share differs from the emitted profit after tax by at
  most one cent (by less than 0.015). A call of \<open>update_config\<close> that returns, with a
  trader share between 0 and 1 if it sets one, on a configuration where the global
  shares add up to one and every client entry stores either both shares, adding up to
  one, or neither, leaves such a configuration, in which every resolved configuration
  has shares adding up to one. Whenever it sets the trader share to \<open>s\<close>, the
  configuration it was called for has the trader share \<open>s\<close> and the investor share
  \<open>1 - s\<close>.
\<close>

theorem C3_split_conservation:
  "(get_client_capital_flow st cid = Some r
      \<and> b \<in> set (f_monthly_breakdown r) \<union> set (f_biweekly_breakdown r)
      \<and> investor_share (get_config (st_config st) (Some cid))
          + trader_share (get_config (st_config st) (Some cid)) = 1
      \<and> 0 \<le> investor_share (get_config (st_config st) (Some cid))
      \<and> 0 \<le> trader_share (get_config (st_config st) (Some cid))
      \<and> \<bar>b_profit_after_tax b\<bar> \<le> 10 ^ 9 \<longrightarrow>
      \<bar>b_investor_share b + b_trader_share b - b_profit_after_tax b\<bar> < 3 / 200)
   \<and> (update_config cfg tax trader target = Inr cfg' \<and> shares_ok cfg
        \<and> (case trader of None \<Rightarrow> True | Some s \<Rightarrow> 0 \<le> s \<and> s \<le> 1) \<longrightarrow>
        shares_ok cfg'
        \<and> (\<forall>who. trader_share (get_config cfg' who) + investor_share (get_config cfg' who) = 1))
   \<and> (update_config cfg tax (Some s) target = Inr cfg' \<longrightarrow>
        trader_share (get_config cfg' target) = s
        \<and> investor_share (get_config cfg' target) = 1 - s)"
proof -
  have split: "\<bar>b_investor_share b + b_trader_share b - b_profit_after_tax b\<bar> < 3 / 200"
    if f: "get_client_capital_flow st cid = Some r"
      and b: "b \<in> set (f_monthly_breakdown r) \<union> set (f_biweekly_breakdown r)"
      and one: "investor_share (get_config (st_config st) (Some cid))
                + trader_share (get_config (st_config st) (Some cid)) = 1"
  proof -
    define i where "i = investor_share (get_config (st_config st) (Some cid))"
    define t where "t = trader_share (get_config (st_config st) (Some cid))"
    from flow_row_split [OF f b] obtain p where
      p: "b_profit_after_tax b = round2 p" "b_investor_share b = round2 (p * i)"
         "b_trader_share b = round2 (p * t)"
      unfolding i_def t_def by blast
    from one have "i + t = 1"
      by (simp add: i_def t_def)
    then have sum: "p * i + p * t = p"
      by (simp add: distrib_left [symmetric])
    have "\<bar>round2 (p * i) + round2 (p * t) - round2 (p * i + p * t)\<bar> \<le> 1 / 100"
      by (rule round2_split_cent)
    then have "\<bar>b_investor_share b + b_trader_share b - b_profit_after_tax b\<bar> \<le> 1 / 100"
      by (simp only: p sum)
    then show ?thesis
      by linarith
  qed
  have inv: "shares_ok cfg'
             \<and> (\<forall>who. trader_share (get_config cfg' who) + investor_share (get_config cfg' who) = 1)"
    if "update_config cfg tax trader target = Inr cfg'" "shares_ok cfg"
    using update_config_shares_ok [OF that] shares_ok_resolved by blast
  have set: "trader_share (get_config cfg' target) = s
             \<and> investor_share (get_config cfg' target) = 1 - s"
    if "update_config cfg tax (Some s) target = Inr cfg'"
    using update_config_recomputes [OF that] by blast
  from split inv set show ?thesis
    by blast
qed

theorem C3_split_conservation_witness:
  "get_client_capital_flow small_account ''bob'' = Some small_account_flow
   \<and> small_account_row 665
       \<in> set (f_monthly_breakdown small_account_flow) \<union> set (f_biweekly_breakdown small_account_flow)
   \<and> investor_share (get_config (st_config small_account) (Some ''bob''))
       + trader_share (get_config (st_config small_account) (Some ''bob'')) = 1
   \<and> 0 \<le> investor_share (get_config (st_config small_account) (Some ''bob''))
   \<and> 0 \<le> trader_share (get_config (st_config small_account) (Some ''bob''))
   \<and> \<bar>b_profit_after_tax (small_account_row 665)\<bar> \<le> 10 ^ 9
   \<and> \<bar>b_investor_share (small_account_row 665) + b_trader_share (small_account_row 665)
        - b_profit_after_tax (small_account_row 665)\<bar> < 3 / 200
   \<and> b_investor_share (small_account_row 665) + b_trader_share (small_account_row 665)
       - b_profit_after_tax (small_account_row 665) = 1 / 100
   \<and> update_config default_config None (Some (3 / 10)) (Some ''alice'') = Inr updated_config
   \<and> shares_ok default_config
   \<and> (0 :: rat) \<le> 3 / 10 \<and> (3 / 10 :: rat) \<le> 1
   \<and> shares_ok updated_config
   \<and> trader_share (get_config updated_config (Some ''alice'')) = 3 / 10
   \<and> investor_share (get_config updated_config (Some ''alice'')) = 1 - 3 / 10
   \<and> trader_share (get_config updated_config (Some ''bob''))
       + investor_share (get_config updated_config (Some ''bob'')) = 1"
proof -
  have m: "small_account_row 665
       \<in> set (f_monthly_breakdown small_account_flow) \<union> set (f_biweekly_breakdown small_account_flow)"
    by (simp add: small_account_flow_def)
  have one: "investor_share (get_config (st_config small_account) (Some ''bob''))
             + trader_share (get_config (st_config small_account) (Some ''bob'')) = 1"
            "0 \<le> investor_share (get_config (st_config small_account) (Some ''bob''))"
            "0 \<le> trader_share (get_config (st_config small_account) (Some ''bob''))"
    by code_simp+
  have sz: "\<bar>b_profit_after_tax (small_account_row 665)\<bar> \<le> 10 ^ 9"
    by (simp add: small_account_row_def)
  have u: "update_config default_config None (Some (3 / 10)) (Some ''alice'') = Inr updated_config"
    by code_simp
  have ok: "shares_ok default_config"
    by code_simp
  have rng: "case Some (3 / 10 :: rat) of None \<Rightarrow> True | Some s \<Rightarrow> 0 \<le> s \<and> s \<le> 1"
            "(0 :: rat) \<le> 3 / 10" "(3 / 10 :: rat) \<le> 1"
    by simp_all
  have v: "b_investor_share (small_account_row 665) + b_trader_share (small_account_row 665)
           - b_profit_after_tax (small_account_row 665) = 1 / 100"
    by (simp add: small_account_row_def)
  note th = C3_split_conservation [of small_account "''bob''" small_account_flow
              "small_account_row 665" default_config None "Some (3 / 10)" "Some ''alice''"
              updated_config "3 / 10"]
  from th flow_small_account m one sz
  have a: "\<bar>b_investor_share (small_account_row 665) + b_trader_share (small_account_row 665)
        - b_profit_after_tax (small_account_row 665)\<bar> < 3 / 200"
    by blast
  from th u ok rng(1)
  have b: "shares_ok updated_config"
    and c: "trader_share (get_config updated_config (Some ''bob''))
             + investor_share (get_config updated_config (Some ''bob'')) = 1"
    by blast+
  from th u
  have d: "trader_share (get_config updated_config (Some ''alice'')) = 3 / 10"
          "investor_share (get_config updated_config (Some ''alice'')) = 1 - 3 / 10"
    by blast+
  from flow_small_account m one sz a v u ok rng(2,3) b c d show ?thesis
    by blast
qed

section \<open>Ledger chaining\<close>

text \<open>
  Claim C4. In the monthly and in the biweekly ledger of a client, the
  \<open>starting_capital\<close> field of every period after the first equals the
  \<open>ending_capital\<close> field of the period before it: both are the running capital
  between the two iterations, rounded to two decimals.
\<close>

theorem C4_ledger_chaining:
  assumes "get_client_capital_flow st cid = Some r"
    and "bs = f_monthly_breakdown r \<or> bs = f_biweekly_breakdown r"
    and "Suc i < length bs"
  shows "b_starting_capital (bs ! Suc i) = b_ending_capital (bs ! i)"
proof -
  from assms(2) show ?thesis
  proof
    assume bs: "bs = f_monthly_breakdown r"
    have "Suc i < length (get_monthly_strategy_returns st (Some cid))"
      using assms(3) by (simp add: bs flow_monthly [OF assms(1)])
    then show ?thesis
      by (simp only: bs flow_monthly [OF assms(1)] walk_chain)
  next
    assume bs: "bs = f_biweekly_breakdown r"
    have "Suc i < length (get_biweekly_strategy_returns st (Some cid))"
      using assms(3) by (simp add: bs flow_biweekly [OF assms(1)])
    then show ?thesis
      by (simp only: bs flow_biweekly [OF assms(1)] walk_chain)
  qed
qed

theorem C4_ledger_chaining_witness:
  "get_client_capital_flow two_periods ''alice'' = Some two_periods_flow
   \<and> Suc 0 < length (f_monthly_breakdown two_periods_flow)
   \<and> b_starting_capital (f_monthly_breakdown two_periods_flow ! Suc 0) = 10450
   \<and> b_ending_capital (f_monthly_breakdown two_periods_flow ! 0) = 10450
   \<and> Suc 0 < length (f_biweekly_breakdown two_periods_flow)
   \<and> b_starting_capital (f_biweekly_breakdown two_periods_flow ! Suc 0)
       = b_ending_capital (f_biweekly_breakdown two_periods_flow ! 0)"
proof -
  have len: "Suc 0 < length (f_monthly_breakdown two_periods_flow)"
       "Suc 0 < length (f_biweekly_breakdown two_periods_flow)"
    by (simp_all add: two_periods_flow_def)
  have "b_starting_capital (f_monthly_breakdown two_periods_flow ! Suc 0)
        = b_ending_capital (f_monthly_breakdown two_periods_flow ! 0)"
    by (rule C4_ledger_chaining [OF flow_two_periods _ len(1)]) simp
  moreover have "b_starting_capital (f_biweekly_breakdown two_periods_flow ! Suc 0)
        = b_ending_capital (f_biweekly_breakdown two_periods_flow ! 0)"
    by (rule C4_ledger_chaining [OF flow_two_periods _ len(2)]) simp
  moreover have "b_ending_capital (f_monthly_breakdown two_periods_flow ! 0) = 10450"
    by (simp add: two_periods_flow_def scenario_row_def)
  ultimately show ?thesis
    using flow_two_periods len by simp
qed

section \<open>Profit after tax\<close>



section \<open>Missing client, empty trade history\<close>

text \<open>
  Claim C8. For a client id that no row of the client directory carries,
  \<open>get_client_capital_flow\<close> returns \<open>None\<close>; the model has no other failure, so nothing
  is raised. For a client that exists and whose trades from the investment start date
  onwards are none, it returns a ledger with no period in either breakdown, total
  returns of zero and a current capital equal to the anchor: the starting capital plus
  the client's contributions less the client's withdrawals.
\<close>

theorem C8_missing_client_and_no_trades:
  "(cid \<notin> set (map c_client_id (st_clients_df st)) \<longrightarrow> get_client_capital_flow st cid = None)
   \<and> (find (\<lambda>c. c_client_id c = cid) (st_clients_df st) = Some client
        \<and> client_trades st (Some cid) = [] \<longrightarrow>
        get_client_capital_flow st cid =
          Some \<lparr> f_starting_capital = c_starting_capital client,
                 f_current_capital =
                   c_starting_capital client
                     + movement_sum ''contribution'' (client_movements st cid)
                     - movement_sum ''withdrawal'' (client_movements st cid),
                 f_total_contributions = movement_sum ''contribution'' (client_movements st cid),
                 f_total_withdrawals = movement_sum ''withdrawal'' (client_movements st cid),
                 f_total_returns = 0,
                 f_monthly_breakdown = [],
                 f_biweekly_breakdown = [] \<rparr>)"
proof -
  have "get_client_capital_flow st cid = None"
    if "cid \<notin> set (map c_client_id (st_clients_df st))"
  proof -
    from that have "filter (\<lambda>c. c_client_id c = cid) (st_clients_df st) = []"
      by (auto simp: filter_empty_conv)
    then show ?thesis
      by (simp add: get_client_capital_flow_def)
  qed
  moreover have "get_client_capital_flow st cid =
          Some \<lparr> f_starting_capital = c_starting_capital client,
                 f_current_capital =
                   c_starting_capital client
                     + movement_sum ''contribution'' (client_movements st cid)
                     - movement_sum ''withdrawal'' (client_movements st cid),
                 f_total_contributions = movement_sum ''contribution'' (client_movements st cid),
                 f_total_withdrawals = movement_sum ''withdrawal'' (client_movements st cid),
                 f_total_returns = 0,
                 f_monthly_breakdown = [],
                 f_biweekly_breakdown = [] \<rparr>"
    if f: "find (\<lambda>c. c_client_id c = cid) (st_clients_df st) = Some client"
      and t: "client_trades st (Some cid) = []"
  proof -
    from f obtain rest where
      "filter (\<lambda>c. c_client_id c = cid) (st_clients_df st) = client # rest"
      by (auto simp: find_filter split: list.splits)
    then show ?thesis
      using client_trades_Nil_returns [OF t]
      by (simp add: get_client_capital_flow_def client_movements_def Let_def)
  qed
  ultimately show ?thesis
    by blast
qed

theorem C8_missing_client_and_no_trades_witness:
  "''bob'' \<notin> set (map c_client_id (st_clients_df no_trades))
   \<and> get_client_capital_flow no_trades ''bob'' = None
   \<and> find (\<lambda>c. c_client_id c = ''alice'') (st_clients_df no_trades)
       = Some (mk_client ''alice'' 10000)
   \<and> client_trades no_trades (Some ''alice'') = []
   \<and> get_client_capital_flow no_trades ''alice'' =
       Some \<lparr> f_starting_capital = 10000, f_current_capital = 15000,
              f_total_contributions = 5000, f_total_withdrawals = 0, f_total_returns = 0,
              f_monthly_breakdown = [], f_biweekly_breakdown = [] \<rparr>"
proof -
  have a: "''bob'' \<notin> set (map c_client_id (st_clients_df no_trades))"
    by code_simp
  have f: "find (\<lambda>c. c_client_id c = ''alice'') (st_clients_df no_trades)
           = Some (mk_client ''alice'' 10000)"
    by code_simp
  have t: "client_trades no_trades (Some ''alice'') = []"
    by code_simp
  have v: "c_starting_capital (mk_client ''alice'' 10000) = 10000"
          "movement_sum ''contribution'' (client_movements no_trades ''alice'') = 5000"
          "movement_sum ''withdrawal'' (client_movements no_trades ''alice'') = 0"
    by code_simp+
  from C8_missing_client_and_no_trades [of "''bob''" no_trades]
  have "get_client_capital_flow no_trades ''bob'' = None"
    using a by blast
  moreover
  from C8_missing_client_and_no_trades [of "''alice''" no_trades "mk_client ''alice'' 10000"]
  have "get_client_capital_flow no_trades ''alice'' =
       Some \<lparr> f_starting_capital = 10000, f_current_capital = 15000,
              f_total_contributions = 5000, f_total_withdrawals = 0, f_total_returns = 0,
              f_monthly_breakdown = [], f_biweekly_breakdown = [] \<rparr>"
    using f t by (simp add: v)
  ultimately show ?thesis
    using a f t by blast
qed

section \<open>Which walk the returned figures come from\<close>

text \<open>
  Claim C10. When the monthly breakdown has a period (the biweekly one then has one
  too), the returned \<open>current_capital\<close> is the ending capital of the last monthly period
  and the returned \<open>total_returns\<close> is the sum of the monthly profits after tax, whatever
  the biweekly walk computed. The figures of the biweekly walk are returned only when
  the monthly breakdown is empty; the biweekly breakdown is then empty as well, and
  the figures are the capital the biweekly walk starts from and a total of zero.
\<close>

theorem C10_monthly_figures_returned:
  assumes "get_client_capital_flow st cid = Some r"
  shows "(f_monthly_breakdown r \<noteq> [] \<longrightarrow>
            f_biweekly_breakdown r \<noteq> []
            \<and> f_current_capital r = b_ending_capital (last (f_monthly_breakdown r))
            \<and> f_total_returns r = sum_list (map b_profit_after_tax (f_monthly_breakdown r)))
         \<and> (f_monthly_breakdown r = [] \<longrightarrow>
            f_biweekly_breakdown r = []
            \<and> f_current_capital r =
                fst (reconciliation_walk to_period_2W (get_config (st_config st) (Some cid))
                       (client_movements st cid) (anchor st cid (f_starting_capital r))
                       (get_biweekly_strategy_returns st (Some cid)))
            \<and> f_total_returns r = sum_list (map b_profit_after_tax (f_biweekly_breakdown r)))"
proof -
  have len: "length (f_monthly_breakdown r) = length (get_monthly_strategy_returns st (Some cid))"
            "length (f_biweekly_breakdown r) = length (get_biweekly_strategy_returns st (Some cid))"
    by (simp_all add: flow_monthly [OF assms] flow_biweekly [OF assms])
  have both: "f_biweekly_breakdown r \<noteq> []" if "f_monthly_breakdown r \<noteq> []"
    using that len returns_Nil_iff [of st "Some cid"] by (metis length_0_conv)
  have none: "f_biweekly_breakdown r = []
              \<and> f_current_capital r =
                  fst (reconciliation_walk to_period_2W (get_config (st_config st) (Some cid))
                         (client_movements st cid) (anchor st cid (f_starting_capital r))
                         (get_biweekly_strategy_returns st (Some cid)))
              \<and> f_total_returns r = sum_list (map b_profit_after_tax (f_biweekly_breakdown r))"
    if e: "f_monthly_breakdown r = []"
  proof -
    note n = flow_no_periods [OF assms e]
    from n(1) len(2) have "get_biweekly_strategy_returns st (Some cid) = []"
      by simp
    with n show ?thesis
      by simp
  qed
  from both none flow_monthly_figures [OF assms] show ?thesis
    by blast
qed

theorem C10_monthly_figures_returned_witness:
  "get_client_capital_flow with_contribution ''alice'' = Some with_contribution_flow
   \<and> f_monthly_breakdown with_contribution_flow \<noteq> []
   \<and> f_biweekly_breakdown with_contribution_flow \<noteq> []
   \<and> f_current_capital with_contribution_flow
       = b_ending_capital (last (f_monthly_breakdown with_contribution_flow))
   \<and> f_current_capital with_contribution_flow = 1030015 / 100
   \<and> b_ending_capital (last (f_biweekly_breakdown with_contribution_flow)) = 1545022 / 100
   \<and> f_total_returns with_contribution_flow
       = sum_list (map b_profit_after_tax (f_monthly_breakdown with_contribution_flow))
   \<and> f_total_returns with_contribution_flow = 50025 / 100
   \<and> sum_list (map b_profit_after_tax (f_biweekly_breakdown with_contribution_flow))
       = 75038 / 100
   \<and> get_client_capital_flow no_trades ''alice'' = Some no_trades_flow
   \<and> f_monthly_breakdown no_trades_flow = []
   \<and> f_biweekly_breakdown no_trades_flow = []
   \<and> f_current_capital no_trades_flow =
       fst (reconciliation_walk to_period_2W (get_config (st_config no_trades) (Some ''alice''))
              (client_movements no_trades ''alice'')
              (anchor no_trades ''alice'' (f_starting_capital no_trades_flow))
              (get_biweekly_strategy_returns no_trades (Some ''alice'')))
   \<and> f_current_capital no_trades_flow = 15000
   \<and> f_total_returns no_trades_flow
       = sum_list (map b_profit_after_tax (f_biweekly_breakdown no_trades_flow))"
proof -
  have ne: "f_monthly_breakdown with_contribution_flow \<noteq> []"
    by (simp add: with_contribution_flow_def)
  have e: "f_monthly_breakdown no_trades_flow = []"
    by (simp add: no_trades_flow_def)
  have v: "f_current_capital with_contribution_flow = 1030015 / 100"
          "b_ending_capital (last (f_biweekly_breakdown with_contribution_flow)) = 1545022 / 100"
          "f_total_returns with_contribution_flow = 50025 / 100"
          "sum_list (map b_profit_after_tax (f_biweekly_breakdown with_contribution_flow))
             = 75038 / 100"
          "f_current_capital no_trades_flow = 15000"
    by (simp_all add: with_contribution_flow_def no_trades_flow_def)
  from C10_monthly_figures_returned [OF flow_with_contribution]
       C10_monthly_figures_returned [OF flow_no_trades]
       ne e v flow_with_contribution flow_no_trades
  show ?thesis
    by blast
qed

end
